theory Spec2Isabelle
  imports Complex_Main "HOL-Library.Stream" "HOL-Library.Word"
begin

section \<open>The arithmetic of \<^verbatim>\<open>float\<close>\<close>

text \<open>
  The simulation (\<^verbatim>\<open>src/main.cpp\<close>) computes on C++ \<^verbatim>\<open>float\<close> values. A value is
  modelled as a finite real or one of the three special values of IEEE 754. Finite
  results are the exact real results: rounding, overflow and underflow are left out,
  and so is the sign of a zero (a nonzero finite value divided by zero gives the
  infinity of the sign of the numerator, as a division by \<^verbatim>\<open>+0\<close> does). The special
  values arise and propagate as IEEE 754 prescribes: \<^verbatim>\<open>0/0\<close>, \<^verbatim>\<open>inf - inf\<close>,
  \<^verbatim>\<open>0 * inf\<close> and \<^verbatim>\<open>inf/inf\<close> are NaN, every operation on a NaN is a NaN, and
  every comparison with a NaN is false.
\<close>

datatype float = Fin real | PInf | NInf | NaN

instantiation float :: "{plus, minus, uminus, times, inverse, ord}"
begin

fun plus_float :: "float \<Rightarrow> float \<Rightarrow> float" where
  "plus_float NaN b = NaN"
| "plus_float a NaN = NaN"
| "plus_float (Fin a) (Fin b) = Fin (a + b)"
| "plus_float PInf NInf = NaN"
| "plus_float NInf PInf = NaN"
| "plus_float PInf b = PInf"
| "plus_float a PInf = PInf"
| "plus_float NInf b = NInf"
| "plus_float a NInf = NInf"

fun uminus_float :: "float \<Rightarrow> float" where
  "uminus_float (Fin a) = Fin (- a)"
| "uminus_float PInf = NInf"
| "uminus_float NInf = PInf"
| "uminus_float NaN = NaN"

definition minus_float :: "float \<Rightarrow> float \<Rightarrow> float" where
  "minus_float a b = a + (- b)"

fun times_float :: "float \<Rightarrow> float \<Rightarrow> float" where
  "times_float NaN b = NaN"
| "times_float a NaN = NaN"
| "times_float (Fin a) (Fin b) = Fin (a * b)"
| "times_float (Fin a) PInf = (if a = 0 then NaN else if 0 < a then PInf else NInf)"
| "times_float (Fin a) NInf = (if a = 0 then NaN else if 0 < a then NInf else PInf)"
| "times_float PInf (Fin b) = (if b = 0 then NaN else if 0 < b then PInf else NInf)"
| "times_float NInf (Fin b) = (if b = 0 then NaN else if 0 < b then NInf else PInf)"
| "times_float PInf PInf = PInf"
| "times_float NInf NInf = PInf"
| "times_float PInf NInf = NInf"
| "times_float NInf PInf = NInf"

fun divide_float :: "float \<Rightarrow> float \<Rightarrow> float" where
  "divide_float NaN b = NaN"
| "divide_float a NaN = NaN"
| "divide_float (Fin a) (Fin b) =
     (if b = 0 then (if a = 0 then NaN else if 0 < a then PInf else NInf)
      else Fin (a / b))"
| "divide_float (Fin a) b = Fin 0"
| "divide_float PInf (Fin b) = (if 0 \<le> b then PInf else NInf)"
| "divide_float NInf (Fin b) = (if 0 \<le> b then NInf else PInf)"
| "divide_float a b = NaN"

definition inverse_float :: "float \<Rightarrow> float" where
  "inverse_float a = divide (Fin 1) a"

fun less_float :: "float \<Rightarrow> float \<Rightarrow> bool" where
  "less_float NaN b = False"
| "less_float a NaN = False"
| "less_float (Fin a) (Fin b) = (a < b)"
| "less_float a NInf = False"
| "less_float NInf b = True"
| "less_float PInf b = False"
| "less_float a PInf = True"

definition less_eq_float :: "float \<Rightarrow> float \<Rightarrow> bool" where
  "less_eq_float a b = (a < b \<or> (a = b \<and> a \<noteq> NaN))"

instance ..

end

text \<open>\<^verbatim>\<open>std::sqrt\<close>: the square root of a negative value is NaN.\<close>

fun sqrt_f :: "float \<Rightarrow> float" where
  "sqrt_f (Fin a) = (if a < 0 then NaN else Fin (sqrt a))"
| "sqrt_f PInf = PInf"
| "sqrt_f NInf = NaN"
| "sqrt_f NaN = NaN"

text \<open>\<^verbatim>\<open>std::pow(2.f, d)\<close>, the only power the program takes.\<close>

fun pow2 :: "float \<Rightarrow> float" where
  "pow2 (Fin d) = Fin (2 powr d)"
| "pow2 PInf = PInf"
| "pow2 NInf = Fin 0"
| "pow2 NaN = NaN"

text \<open>\<^verbatim>\<open>static_cast<float>(n)\<close> of an \<^verbatim>\<open>int\<close>.\<close>

definition float_of_int :: "int \<Rightarrow> float" where
  "float_of_int n = Fin (of_int n)"


section \<open>\<^verbatim>\<open>sf::Vector2f\<close>\<close>

text \<open>
  The vector type is SFML's \<^verbatim>\<open>sf::Vector2<float>\<close> (SFML 3, the version whose
  interface the program uses). Its operators work on each component. \<^verbatim>\<open>length()\<close>
  is \<^verbatim>\<open>std::sqrt(x * x + y * y)\<close>, and \<^verbatim>\<open>normalized()\<close> is the vector divided by
  its \<^verbatim>\<open>length()\<close>. The library names a divisor that is not zero (for
  \<^verbatim>\<open>operator/\<close>) and a vector that is not the zero vector (for \<^verbatim>\<open>normalized()\<close>) as
  preconditions and checks them by \<^verbatim>\<open>assert\<close> only, which a release build compiles
  away. The model is the release build: a division is made whatever the divisor is, by
  the rules of \<^verbatim>\<open>float\<close>. A debug build stops the program at the assertion on the
  same inputs.
\<close>

datatype Vector2f = Vector2f (x_of: float) (y_of: float)

instantiation Vector2f :: "{plus, minus}"
begin

definition plus_Vector2f :: "Vector2f \<Rightarrow> Vector2f \<Rightarrow> Vector2f" where
  "plus_Vector2f l r = Vector2f (x_of l + x_of r) (y_of l + y_of r)"

definition minus_Vector2f :: "Vector2f \<Rightarrow> Vector2f \<Rightarrow> Vector2f" where
  "minus_Vector2f l r = Vector2f (x_of l - x_of r) (y_of l - y_of r)"

instance ..

end

text \<open>\<^verbatim>\<open>vector * scalar\<close>, \<^verbatim>\<open>scalar * vector\<close> and \<^verbatim>\<open>vector / scalar\<close>.\<close>

definition vmul :: "Vector2f \<Rightarrow> float \<Rightarrow> Vector2f" where
  "vmul l r = Vector2f (x_of l * r) (y_of l * r)"

definition smul :: "float \<Rightarrow> Vector2f \<Rightarrow> Vector2f" where
  "smul l r = Vector2f (x_of r * l) (y_of r * l)"

definition vdiv :: "Vector2f \<Rightarrow> float \<Rightarrow> Vector2f" where
  "vdiv l r = Vector2f (x_of l / r) (y_of l / r)"

definition length_vec :: "Vector2f \<Rightarrow> float" where
  "length_vec v = sqrt_f (x_of v * x_of v + y_of v * y_of v)"

definition normalized :: "Vector2f \<Rightarrow> Vector2f" where
  "normalized v = vdiv v (length_vec v)"

definition zero_vec :: Vector2f where
  "zero_vec = Vector2f (Fin 0) (Fin 0)"


section \<open>Boids and the flock\<close>

text \<open>
  \<^verbatim>\<open>sf::Color\<close> is four bytes. The \<^verbatim>\<open>sf::CircleShape\<close> of a boid belongs to the
  drawing code; \<^verbatim>\<open>update\<close>, \<^verbatim>\<open>addBoid\<close>, \<^verbatim>\<open>setDest\<close> and \<^verbatim>\<open>clear\<close> never read it,
  and it is left out with \<^verbatim>\<open>draw\<close>.
\<close>

datatype Color = Color "8 word" "8 word" "8 word" "8 word"

record Boid =
  mPos :: Vector2f
  mVel :: Vector2f
  mRadius :: float
  mColor :: Color

text \<open>The constructor: \<^verbatim>\<open>mVel\<close> keeps its default member initialiser \<^verbatim>\<open>{0.f, 0.f}\<close>.\<close>

definition new_Boid :: "float \<Rightarrow> float \<Rightarrow> float \<Rightarrow> Color \<Rightarrow> Boid" where
  "new_Boid x y radius color =
     \<lparr>mPos = Vector2f x y, mVel = zero_vec, mRadius = radius, mColor = color\<rparr>"

definition move :: "Boid \<Rightarrow> Boid" where
  "move b = b\<lparr>mPos := mPos b + mVel b\<rparr>"

record Flock =
  mBoids :: "Boid list"
  mDest :: Vector2f

text \<open>The constants of \<^verbatim>\<open>Flock\<close>, at their decimal values.\<close>

definition AVOID_FACTOR :: float where "AVOID_FACTOR = Fin (5 / 10)"
definition VISUAL_RANGE :: float where "VISUAL_RANGE = Fin 20"
definition CENTERING_FACTOR :: float where "CENTERING_FACTOR = Fin (5 / 10000)"
definition MATCHING_FACTOR :: float where "MATCHING_FACTOR = Fin (5 / 100)"
definition MAX_SPEED :: float where "MAX_SPEED = Fin 6"
definition MIN_SPEED :: float where "MIN_SPEED = Fin 1"
definition BIAS_VAL :: float where "BIAS_VAL = Fin (5 / 1000)"
definition NOISE_STRENGTH :: float where "NOISE_STRENGTH = Fin (1 / 10)"

subsection \<open>The scan of the other boids\<close>

text \<open>
  The four accumulators of the inner loop of \<^verbatim>\<open>Flock::update\<close>. The count is an
  \<^verbatim>\<open>int\<close> that goes up by one for a neighbour: it stays far from the bounds of 32
  bits, and is modelled as an integer.
\<close>

record Acc =
  separation :: Vector2f
  avg_vel :: Vector2f
  avg_pos :: Vector2f
  neighbourhood_size :: int

definition acc0 :: Acc where
  "acc0 = \<lparr>separation = zero_vec, avg_vel = zero_vec, avg_pos = zero_vec,
           neighbourhood_size = 0\<rparr>"

text \<open>One pass of the inner loop body, for an \<^verbatim>\<open>other_boid\<close> that is not \<^verbatim>\<open>boid\<close>.\<close>

definition visit :: "Boid \<Rightarrow> Boid \<Rightarrow> Acc \<Rightarrow> Acc" where
  "visit boid other_boid acc =
     (let r = mRadius boid;
          pos = mPos boid;
          r2 = mRadius other_boid;
          pos2 = mPos other_boid;
          vel2 = mVel other_boid;
          toOther = pos2 - pos;
          len = length_vec toOther;
          dist = len - (r + r2)
      in if dist < VISUAL_RANGE
         then \<lparr>separation = separation acc - vdiv toOther (len * pow2 dist),
               avg_vel = avg_vel acc + vel2,
               avg_pos = avg_pos acc + pos2,
               neighbourhood_size = neighbourhood_size acc + 1\<rparr>
         else acc)"

fun scan :: "Boid \<Rightarrow> Boid list \<Rightarrow> Acc \<Rightarrow> Acc" where
  "scan boid [] acc = acc"
| "scan boid (other_boid # others) acc = scan boid others (visit boid other_boid acc)"

text \<open>Lines 109 to 113: the sums become averages when there is a neighbour.\<close>

definition averages :: "Acc \<Rightarrow> Acc" where
  "averages acc =
     (if 0 < neighbourhood_size acc
      then acc\<lparr>avg_vel := vdiv (avg_vel acc) (float_of_int (neighbourhood_size acc)),
               avg_pos := vdiv (avg_pos acc) (float_of_int (neighbourhood_size acc))\<rparr>
      else acc)"

subsection \<open>The new velocity\<close>

text \<open>Lines 118 to 120: separation, alignment and cohesion, each added in place.\<close>

definition flocking_rules :: "Vector2f \<Rightarrow> Vector2f \<Rightarrow> Acc \<Rightarrow> Vector2f" where
  "flocking_rules vel pos acc =
     (let vel1 = vel + vmul (separation acc) AVOID_FACTOR;
          vel2 = vel1 + smul MATCHING_FACTOR (avg_vel acc - vel1);
          vel3 = vel2 + smul CENTERING_FACTOR (avg_pos acc - pos)
      in vel3)"

text \<open>Lines 115, 116 and 121: the pull towards the destination.\<close>

definition destination_velocity :: "Vector2f \<Rightarrow> Vector2f \<Rightarrow> Vector2f" where
  "destination_velocity dest pos =
     (let toTarget = dest - pos in vmul (normalized toTarget) MAX_SPEED)"

definition steer :: "Vector2f \<Rightarrow> Vector2f \<Rightarrow> Vector2f" where
  "steer vel toDest = smul (Fin 1 - BIAS_VAL) vel + smul BIAS_VAL toDest"

text \<open>Lines 128 to 136: the speed limit.\<close>

definition limit_speed :: "Vector2f \<Rightarrow> Vector2f" where
  "limit_speed vel =
     (let speed = length_vec vel
      in if MAX_SPEED < speed then vmul vel (MAX_SPEED / (speed + Fin (1 / 100)))
         else if speed < MIN_SPEED then vmul vel (MIN_SPEED / (speed + Fin (1 / 100)))
         else vel)"

text \<open>
  The generator \<^verbatim>\<open>rng\<close> with its distribution \<^verbatim>\<open>noise\<close> is a static variable of
  \<^verbatim>\<open>update\<close>: a state that lives across the calls. It is modelled by the stream of
  the values that \<^verbatim>\<open>noise(rng)\<close> is still to return; a draw takes the head.
\<close>

definition noise :: "float stream \<Rightarrow> float \<times> float stream" where
  "noise rng = (shd rng, stl rng)"

text \<open>
  The body of the outer loop for one \<^verbatim>\<open>boid\<close>; \<^verbatim>\<open>others\<close> are the other boids of
  the flock in the order of \<^verbatim>\<open>mBoids\<close>, as they are when the body runs. The two
  draws of the jitter are made from left to right (a braced initialiser).
\<close>

definition update_boid :: "Vector2f \<Rightarrow> Boid list \<Rightarrow> Boid \<Rightarrow> float stream \<Rightarrow> Boid \<times> float stream" where
  "update_boid dest others boid rng =
     (let pos = mPos boid;
          vel = mVel boid;
          acc = averages (scan boid others acc0);
          toDest = destination_velocity dest pos;
          vel' = steer (flocking_rules vel pos acc) toDest;
          (n1, rng1) = noise rng;
          (n2, rng2) = noise rng1;
          jitter = Vector2f (n1 * NOISE_STRENGTH) (n2 * NOISE_STRENGTH);
          vel'' = limit_speed (vel' + jitter)
      in (move (boid\<lparr>mVel := vel''\<rparr>), rng2))"

text \<open>
  The outer loop changes the boids in place, one after the other: when a boid is
  updated, the boids before it in \<^verbatim>\<open>mBoids\<close> already have their new velocity and
  position and the boids after it still have the old ones. \<^verbatim>\<open>before\<close> are the boids
  already updated. The inner loop skips the boid itself by the identity of the
  object, which is its place in \<^verbatim>\<open>mBoids\<close>.
\<close>

fun update_boids :: "Vector2f \<Rightarrow> Boid list \<Rightarrow> Boid list \<Rightarrow> float stream \<Rightarrow> Boid list \<times> float stream" where
  "update_boids dest before [] rng = (before, rng)"
| "update_boids dest before (boid # rest) rng =
     (case update_boid dest (before @ rest) boid rng of
        (boid', rng') \<Rightarrow> update_boids dest (before @ [boid']) rest rng')"

definition update :: "Flock \<Rightarrow> float stream \<Rightarrow> Flock \<times> float stream" where
  "update f rng =
     (case update_boids (mDest f) [] (mBoids f) rng of
        (boids, rng') \<Rightarrow> (f\<lparr>mBoids := boids\<rparr>, rng'))"

subsection \<open>The other operations of the flock\<close>

definition addBoid :: "float \<Rightarrow> float \<Rightarrow> float \<Rightarrow> Color \<Rightarrow> Flock \<Rightarrow> Flock" where
  "addBoid x y radius color f = f\<lparr>mBoids := mBoids f @ [new_Boid x y radius color]\<rparr>"

definition setDest :: "Vector2f \<Rightarrow> Flock \<Rightarrow> Flock" where
  "setDest newDest f = f\<lparr>mDest := newDest\<rparr>"

definition clear :: "Flock \<Rightarrow> Flock" where
  "clear f = f\<lparr>mBoids := []\<rparr>"

section \<open>The integration of the velocity, as the specification words it\<close>

text \<open>
  Step 5 of section 4.2 of the specification, in its order: the separation term, the
  alignment term on the velocity as it then stands, the cohesion term, the blend with
  the destination velocity, the jitter, the clamp. This definition follows the
  specification's words; the theorem on the order of integration compares it with
  what \<^verbatim>\<open>update\<close> computes.
\<close>

definition spec_integrate ::
  "Vector2f \<Rightarrow> Vector2f \<Rightarrow> Vector2f \<Rightarrow> Vector2f \<Rightarrow> Vector2f \<Rightarrow> Vector2f \<Rightarrow> Vector2f \<Rightarrow> Vector2f" where
  "spec_integrate velocity position separation_sum avg_velocity avg_position
       destination_velocity_of jitter =
     (let v1 = velocity + vmul separation_sum AVOID_FACTOR;
          v2 = v1 + smul MATCHING_FACTOR (avg_velocity - v1);
          v3 = v2 + smul CENTERING_FACTOR (avg_position - position);
          v4 = smul (Fin 1 - BIAS_VAL) v3 + smul BIAS_VAL destination_velocity_of;
          v5 = v4 + jitter
      in limit_speed v5)"

section \<open>The loops\<close>

text \<open>A boid's update takes exactly two draws.\<close>

lemma update_boid_snd: "snd (update_boid dest others boid rng) = stl (stl rng)"
  by (simp add: update_boid_def noise_def Let_def)

lemma update_boid_draws:
  "shd rng = shd rng' \<Longrightarrow> shd (stl rng) = shd (stl rng') \<Longrightarrow>
   fst (update_boid dest others boid rng) = fst (update_boid dest others boid rng')"
  by (simp add: update_boid_def noise_def Let_def)

lemma update_boids_length:
  "length (fst (update_boids dest before rest rng)) = length before + length rest"
proof (induction rest arbitrary: before rng)
  case Nil
  show ?case by simp
next
  case (Cons boid rest)
  show ?case
    by (cases "update_boid dest (before @ rest) boid rng") (simp add: Cons.IH)
qed

text \<open>The boids already updated are not touched again.\<close>

lemma update_boids_prefix:
  "take (length before) (fst (update_boids dest before rest rng)) = before"
proof (induction rest arbitrary: before rng)
  case Nil
  show ?case by simp
next
  case (Cons boid rest)
  obtain b r where br: "update_boid dest (before @ rest) boid rng = (b, r)"
    by (cases "update_boid dest (before @ rest) boid rng")
  have "take (length (before @ [b])) (fst (update_boids dest (before @ [b]) rest r)) = before @ [b]"
    by (rule Cons.IH)
  then have "take (length before) (take (length (before @ [b])) (fst (update_boids dest (before @ [b]) rest r)))
               = take (length before) (before @ [b])"
    by simp
  then have "take (length before) (fst (update_boids dest (before @ [b]) rest r)) = before"
    by (simp add: min_def)
  then show ?case using br by simp
qed

text \<open>
  The boid at place \<open>i\<close> of the result is the update of the boid at place \<open>i\<close>,
  with the new boids before it and the old boids after it as the others, and with the
  draws \<open>2 * i\<close> and \<open>2 * i + 1\<close>.
\<close>

lemma update_boids_nth:
  "i < length rest \<Longrightarrow>
   fst (update_boids dest before rest rng) ! (length before + i) =
     fst (update_boid dest
            (take (length before + i) (fst (update_boids dest before rest rng)) @ drop (Suc i) rest)
            (rest ! i) (sdrop (2 * i) rng))"
proof (induction rest arbitrary: before rng i)
  case Nil
  then show ?case by simp
next
  case (Cons boid rest)
  obtain b r where br: "update_boid dest (before @ rest) boid rng = (b, r)"
    by (cases "update_boid dest (before @ rest) boid rng")
  have r: "r = stl (stl rng)"
    using update_boid_snd [of dest "before @ rest" boid rng] br by simp
  let ?res = "fst (update_boids dest (before @ [b]) rest r)"
  have res: "fst (update_boids dest before (boid # rest) rng) = ?res"
    using br by simp
  have pre: "take (Suc (length before)) ?res = before @ [b]"
    using update_boids_prefix [of "before @ [b]" dest rest r] by simp
  show ?case
  proof (cases i)
    case 0
    have "take (length before) (take (Suc (length before)) ?res) = take (length before) (before @ [b])"
      using pre by simp
    then have pre0: "take (length before) ?res = before" by (simp add: min_def)
    have "length before < length ?res" by (simp add: update_boids_length)
    then have "?res ! length before = take (Suc (length before)) ?res ! length before" by simp
    then have "?res ! length before = b" using pre by simp
    then show ?thesis using 0 res pre0 br by simp
  next
    case (Suc j)
    then have j: "j < length rest" using Cons.prems by simp
    have "?res ! (length (before @ [b]) + j) =
            fst (update_boid dest (take (length (before @ [b]) + j) ?res @ drop (Suc j) rest)
                   (rest ! j) (sdrop (2 * j) r))"
      by (rule Cons.IH [OF j])
    then show ?thesis using Suc res r by simp
  qed
qed


lemma update_boids_draws:
  "stake (2 * length rest) rng = stake (2 * length rest) rng' \<Longrightarrow>
   fst (update_boids dest before rest rng) = fst (update_boids dest before rest rng')"
proof (induction rest arbitrary: before rng rng')
  case Nil
  show ?case by simp
next
  case (Cons boid rest)
  from Cons.prems have hd1: "shd rng = shd rng'"
    and hd2: "shd (stl rng) = shd (stl rng')"
    and tl: "stake (2 * length rest) (stl (stl rng)) = stake (2 * length rest) (stl (stl rng'))"
    by simp_all
  have same: "fst (update_boid dest (before @ rest) boid rng) =
              fst (update_boid dest (before @ rest) boid rng')"
    using hd1 hd2 by (rule update_boid_draws)
  obtain b r where br: "update_boid dest (before @ rest) boid rng = (b, r)"
    by (cases "update_boid dest (before @ rest) boid rng")
  obtain b' r' where br': "update_boid dest (before @ rest) boid rng' = (b', r')"
    by (cases "update_boid dest (before @ rest) boid rng'")
  have "b = b'" using same br br' by simp
  moreover have "r = stl (stl rng)"
    using update_boid_snd [of dest "before @ rest" boid rng] br by simp
  moreover have "r' = stl (stl rng')"
    using update_boid_snd [of dest "before @ rest" boid rng'] br' by simp
  ultimately show ?case using br br' Cons.IH [OF tl] by simp
qed

lemma update_boids_snd:
  "snd (update_boids dest before rest rng) = sdrop (2 * length rest) rng"
proof (induction rest arbitrary: before rng)
  case Nil
  show ?case by simp
next
  case (Cons boid rest)
  obtain b r where br: "update_boid dest (before @ rest) boid rng = (b, r)"
    by (cases "update_boid dest (before @ rest) boid rng")
  have "r = stl (stl rng)"
    using update_boid_snd [of dest "before @ rest" boid rng] br by simp
  then show ?case using br Cons.IH by simp
qed

lemma update_fst: "mBoids (fst (update f rng)) = fst (update_boids (mDest f) [] (mBoids f) rng)"
  by (cases "update_boids (mDest f) [] (mBoids f) rng") (simp add: update_def)

section \<open>Evaluating the model\<close>

lemmas float_consts = AVOID_FACTOR_def VISUAL_RANGE_def CENTERING_FACTOR_def MATCHING_FACTOR_def
  MAX_SPEED_def MIN_SPEED_def BIAS_VAL_def NOISE_STRENGTH_def

lemmas vec_defs = plus_Vector2f_def minus_Vector2f_def vmul_def smul_def vdiv_def length_vec_def
  normalized_def zero_vec_def minus_float_def

lemmas step_defs = update_def update_boid_def visit_def acc0_def averages_def float_of_int_def
  flocking_rules_def destination_velocity_def steer_def noise_def limit_speed_def move_def
  new_Boid_def addBoid_def Let_def



lemma sqrt_hundredth: "sqrt (1 / 10000) = 1 / 100"
  using real_sqrt_abs2 [of "1 / 100"] by simp



section \<open>Clearing and adding\<close>

text \<open>
  C8: after \<^verbatim>\<open>clear()\<close> the flock has no boid, and \<^verbatim>\<open>update()\<close> on it changes
  neither the flock nor the generator.
\<close>

theorem clear_then_update:
  "mBoids (clear f) = [] \<and> update (clear f) rng = (clear f, rng)"
  by (simp add: clear_def update_def)

text \<open>
  C9: \<^verbatim>\<open>addBoid(x, y, radius, color)\<close> appends exactly one boid, at \<open>(x, y)\<close>, with
  the radius and the colour given and with the zero velocity; the boids already there
  and the destination are unchanged. It holds for every input, so for the finite ones
  with a positive radius.
\<close>

theorem addBoid_appends:
  "mBoids (addBoid x y radius color f) =
     mBoids f @ [\<lparr>mPos = Vector2f x y, mVel = Vector2f (Fin 0) (Fin 0),
                  mRadius = radius, mColor = color\<rparr>] \<and>
   length (mBoids (addBoid x y radius color f)) = Suc (length (mBoids f)) \<and>
   mDest (addBoid x y radius color f) = mDest f"
  by (simp add: addBoid_def new_Boid_def zero_vec_def)

text \<open>
  C10: \<^verbatim>\<open>clear()\<close> leaves the destination as it is: a boid added after a reset is
  updated with the destination set before the reset.
\<close>

theorem clear_keeps_destination:
  "mDest (clear f) = mDest f \<and>
   update (addBoid x y radius color (clear (setDest d f))) rng =
     (case update_boid d [] (new_Boid x y radius color) rng of
        (boid', rng') \<Rightarrow> (\<lparr>mBoids = [boid'], mDest = d\<rparr>, rng'))"
  by (simp add: clear_def setDest_def addBoid_def update_def split: prod.splits)

section \<open>Reproducibility\<close>

text \<open>
  C7: \<^verbatim>\<open>update()\<close> is a function of the flock and of the draws. A call on a flock of
  \<open>n\<close> boids reads the first \<open>2 * n\<close> draws only: two runs from the same flock whose
  draws agree on them end with the same boids (velocities and positions) and the same
  destination.
\<close>

theorem update_deterministic:
  "stake (2 * length (mBoids f)) rng = stake (2 * length (mBoids f)) rng' \<Longrightarrow>
   fst (update f rng) = fst (update f rng')"
  using update_boids_draws [of "mBoids f" rng rng' "mDest f" "[]"]
  by (cases "update_boids (mDest f) [] (mBoids f) rng"; cases "update_boids (mDest f) [] (mBoids f) rng'")
     (simp add: update_def)

theorem update_deterministic_witness:
  "stake (2 * length (mBoids \<lparr>mBoids = [new_Boid (Fin 3) (Fin 4) (Fin 2) (Color 255 0 0 255)],
                                 mDest = Vector2f (Fin 10) (Fin 4)\<rparr>))
     (Fin (1 / 2) ## Fin (- 1 / 4) ## sconst (Fin 0)) =
   stake (2 * length (mBoids \<lparr>mBoids = [new_Boid (Fin 3) (Fin 4) (Fin 2) (Color 255 0 0 255)],
                                 mDest = Vector2f (Fin 10) (Fin 4)\<rparr>))
     (Fin (1 / 2) ## Fin (- 1 / 4) ## sconst (Fin 1)) \<and>
   fst (update \<lparr>mBoids = [new_Boid (Fin 3) (Fin 4) (Fin 2) (Color 255 0 0 255)],
                mDest = Vector2f (Fin 10) (Fin 4)\<rparr>
          (Fin (1 / 2) ## Fin (- 1 / 4) ## sconst (Fin 0))) =
   fst (update \<lparr>mBoids = [new_Boid (Fin 3) (Fin 4) (Fin 2) (Color 255 0 0 255)],
                mDest = Vector2f (Fin 10) (Fin 4)\<rparr>
          (Fin (1 / 2) ## Fin (- 1 / 4) ## sconst (Fin 1)))"
proof -
  have eq: "stake (2 * length (mBoids \<lparr>mBoids = [new_Boid (Fin 3) (Fin 4) (Fin 2) (Color 255 0 0 255)],
                                 mDest = Vector2f (Fin 10) (Fin 4)\<rparr>))
     (Fin (1 / 2) ## Fin (- 1 / 4) ## sconst (Fin 0)) =
   stake (2 * length (mBoids \<lparr>mBoids = [new_Boid (Fin 3) (Fin 4) (Fin 2) (Color 255 0 0 255)],
                                 mDest = Vector2f (Fin 10) (Fin 4)\<rparr>))
     (Fin (1 / 2) ## Fin (- 1 / 4) ## sconst (Fin 1))"
    by (simp add: numeral_2_eq_2)
  from eq update_deterministic [OF eq] show ?thesis by (rule conjI)
qed

section \<open>The neighbour test\<close>










section \<open>The order of the integration\<close>

lemma update_boid_velocity:
  "mVel (fst (update_boid dest others boid rng)) =
     spec_integrate (mVel boid) (mPos boid)
       (separation (averages (scan boid others acc0)))
       (avg_vel (averages (scan boid others acc0)))
       (avg_pos (averages (scan boid others acc0)))
       (vmul (normalized (dest - mPos boid)) MAX_SPEED)
       (Vector2f (shd rng * NOISE_STRENGTH) (shd (stl rng) * NOISE_STRENGTH))"
  by (simp add: update_boid_def spec_integrate_def flocking_rules_def steer_def
                destination_velocity_def noise_def move_def Let_def)

lemma update_boid_position:
  "mPos (fst (update_boid dest others boid rng)) =
     mPos boid + mVel (fst (update_boid dest others boid rng))"
  by (simp add: update_boid_def noise_def move_def Let_def)

lemma update_nth:
  "i < length (mBoids f) \<Longrightarrow>
   mBoids (fst (update f rng)) ! i =
     fst (update_boid (mDest f)
            (take i (mBoids (fst (update f rng))) @ drop (Suc i) (mBoids f))
            (mBoids f ! i) (sdrop (2 * i) rng))"
  using update_boids_nth [of i "mBoids f" "mDest f" "[]" rng] by (simp add: update_fst)

text \<open>
  C6: the velocity that \<^verbatim>\<open>update()\<close> gives the boid at place \<open>i\<close> is the one the
  specification's order of integration gives: the separation sum times
  \<^verbatim>\<open>AVOID_FACTOR\<close> is added, then \<^verbatim>\<open>MATCHING_FACTOR\<close> times the average velocity less
  the velocity as it then is, then \<^verbatim>\<open>CENTERING_FACTOR\<close> times the average position
  less the position, then the velocity is replaced by its blend with the destination
  velocity, then the jitter is added, then the speed is limited. The others of the
  boid are the new boids before it and the old boids after it, its draws are the draws
  \<open>2 * i\<close> and \<open>2 * i + 1\<close>, and its new position is the old one plus the new velocity.
\<close>

theorem integration_order:
  "i < length (mBoids f) \<Longrightarrow>
   (let boid = mBoids f ! i;
        others = take i (mBoids (fst (update f rng))) @ drop (Suc i) (mBoids f);
        acc = averages (scan boid others acc0);
        jitter = Vector2f (shd (sdrop (2 * i) rng) * NOISE_STRENGTH)
                          (shd (stl (sdrop (2 * i) rng)) * NOISE_STRENGTH);
        boid' = mBoids (fst (update f rng)) ! i
    in mVel boid' =
         spec_integrate (mVel boid) (mPos boid) (separation acc) (avg_vel acc) (avg_pos acc)
           (vmul (normalized (mDest f - mPos boid)) MAX_SPEED) jitter \<and>
       mPos boid' = mPos boid + mVel boid')"
proof -
  assume i: "i < length (mBoids f)"
  let ?others = "take i (mBoids (fst (update f rng))) @ drop (Suc i) (mBoids f)"
  have nth: "mBoids (fst (update f rng)) ! i =
               fst (update_boid (mDest f) ?others (mBoids f ! i) (sdrop (2 * i) rng))"
    using i by (rule update_nth)
  show ?thesis
    unfolding Let_def nth
    using update_boid_velocity [of "mDest f" ?others "mBoids f ! i" "sdrop (2 * i) rng"]
          update_boid_position [of "mDest f" ?others "mBoids f ! i" "sdrop (2 * i) rng"]
    by (simp only: nth [symmetric] simp_thms)
qed

theorem integration_order_witness:
  "(0::nat) < length (mBoids (addBoid (Fin 0) (Fin 0) (Fin 2) (Color 255 0 0 255)
                                \<lparr>mBoids = [], mDest = Vector2f (Fin 1) (Fin 0)\<rparr>)) \<and>
   mVel (mBoids (fst (update
                   (addBoid (Fin 0) (Fin 0) (Fin 2) (Color 255 0 0 255)
                      \<lparr>mBoids = [], mDest = Vector2f (Fin 1) (Fin 0)\<rparr>)
                   (Fin (- (1 / 5)) ## Fin 0 ## sconst (Fin 0)))) ! 0) =
     spec_integrate zero_vec zero_vec zero_vec zero_vec zero_vec
       (Vector2f (Fin 6) (Fin 0)) (Vector2f (Fin (- (1 / 50))) (Fin 0)) \<and>
   spec_integrate zero_vec zero_vec zero_vec zero_vec zero_vec
       (Vector2f (Fin 6) (Fin 0)) (Vector2f (Fin (- (1 / 50))) (Fin 0)) =
     Vector2f (Fin (1 / 2)) (Fin 0)"
proof -
  have h: "(0::nat) < length (mBoids (addBoid (Fin 0) (Fin 0) (Fin 2) (Color 255 0 0 255)
                                \<lparr>mBoids = [], mDest = Vector2f (Fin 1) (Fin 0)\<rparr>))"
    by (simp add: addBoid_def)
  have v: "spec_integrate zero_vec zero_vec zero_vec zero_vec zero_vec
       (Vector2f (Fin 6) (Fin 0)) (Vector2f (Fin (- (1 / 50))) (Fin 0)) =
     Vector2f (Fin (1 / 2)) (Fin 0)"
    by (simp add: spec_integrate_def limit_speed_def Let_def zero_vec_def plus_Vector2f_def
          minus_Vector2f_def vmul_def smul_def length_vec_def minus_float_def sqrt_hundredth
          AVOID_FACTOR_def MATCHING_FACTOR_def CENTERING_FACTOR_def BIAS_VAL_def
          MAX_SPEED_def MIN_SPEED_def)
  have "mVel (mBoids (fst (update
                   (addBoid (Fin 0) (Fin 0) (Fin 2) (Color 255 0 0 255)
                      \<lparr>mBoids = [], mDest = Vector2f (Fin 1) (Fin 0)\<rparr>)
                   (Fin (- (1 / 5)) ## Fin 0 ## sconst (Fin 0)))) ! 0) =
     spec_integrate zero_vec zero_vec zero_vec zero_vec zero_vec
       (Vector2f (Fin 6) (Fin 0)) (Vector2f (Fin (- (1 / 50))) (Fin 0))"
    using integration_order [OF h, of "Fin (- (1 / 5)) ## Fin 0 ## sconst (Fin 0)"]
    by (simp add: Let_def addBoid_def new_Boid_def acc0_def averages_def zero_vec_def
          normalized_def length_vec_def minus_Vector2f_def minus_float_def vdiv_def vmul_def
          MAX_SPEED_def NOISE_STRENGTH_def)
  with h v show ?thesis by simp
qed

section \<open>A boid with no neighbour\<close>

text \<open>
  With no neighbour the sums stay zero, and lines 119 and 120 still run: the alignment
  term is \<^verbatim>\<open>MATCHING_FACTOR * (0 - vel)\<close> and the cohesion term is
  \<^verbatim>\<open>CENTERING_FACTOR * (0 - pos)\<close>. The guard of line 109 covers the two divisions
  only.
\<close>

lemma isolated_rules:
  "flocking_rules (Vector2f (Fin vx) (Fin vy)) (Vector2f (Fin px) (Fin py))
     (averages (scan boid [] acc0)) =
   Vector2f (Fin (19 / 20 * vx - px / 2000)) (Fin (19 / 20 * vy - py / 2000))"
  by (simp add: step_defs vec_defs float_consts)

text \<open>
  C4, at a boid alone in its flock. Fresh from \<^verbatim>\<open>addBoid(100, 100, 2, red)\<close> it has
  the velocity \<open>(0, 0)\<close>; the accumulators stay zero, and the velocity after the three
  rules is \<open>(-0.05, -0.05)\<close>, the pull of the cohesion line towards the origin. With
  the velocity \<open>(2, 0)\<close> at the same place the velocity after the three rules is
  \<open>(1.85, -0.05)\<close>: the alignment line has slowed the boid down as well.
\<close>

theorem isolated_boid_pulled:
  "averages (scan (new_Boid (Fin 100) (Fin 100) (Fin 2) (Color 255 0 0 255)) [] acc0) = acc0 \<and>
   mVel (new_Boid (Fin 100) (Fin 100) (Fin 2) (Color 255 0 0 255)) = Vector2f (Fin 0) (Fin 0) \<and>
   flocking_rules (mVel (new_Boid (Fin 100) (Fin 100) (Fin 2) (Color 255 0 0 255)))
     (mPos (new_Boid (Fin 100) (Fin 100) (Fin 2) (Color 255 0 0 255)))
     (averages (scan (new_Boid (Fin 100) (Fin 100) (Fin 2) (Color 255 0 0 255)) [] acc0)) =
     Vector2f (Fin (- (1 / 20))) (Fin (- (1 / 20))) \<and>
   flocking_rules (Vector2f (Fin 2) (Fin 0)) (Vector2f (Fin 100) (Fin 100))
     (averages (scan \<lparr>mPos = Vector2f (Fin 100) (Fin 100), mVel = Vector2f (Fin 2) (Fin 0),
                      mRadius = Fin 2, mColor = Color 255 0 0 255\<rparr> [] acc0)) =
     Vector2f (Fin (37 / 20)) (Fin (- (1 / 20)))"
  by (simp add: step_defs vec_defs float_consts)

section \<open>Divisions by a zero length\<close>

lemma plus_NaN: "(a::float) + NaN = NaN"
  by (cases a) simp_all

lemma visit_coincident:
  assumes "mPos A = Vector2f (Fin px) (Fin py)" "mPos B = Vector2f (Fin px) (Fin py)"
    and "mRadius A = Fin r" "mRadius B = Fin r2" "0 < r" "0 < r2"
  shows "separation (visit A B acc) = Vector2f NaN NaN"
  using assms by (simp add: visit_def Let_def vec_defs VISUAL_RANGE_def plus_NaN)

lemma normalized_zero: "normalized (Vector2f (Fin 0) (Fin 0)) = Vector2f NaN NaN"
  by (simp add: vec_defs)

lemma destination_velocity_at_destination:
  "destination_velocity (Vector2f (Fin px) (Fin py)) (Vector2f (Fin px) (Fin py)) = Vector2f NaN NaN"
  by (simp add: destination_velocity_def vec_defs MAX_SPEED_def)

text \<open>
  C1, at two boids added at the same place \<open>(100, 200)\<close> with the radii 3 and 5,
  whatever the destination and the draws are: line 102 divides the zero vector by
  \<open>len * 2^dist = 0\<close>, and the boid updated first ends with NaN in both components of
  its velocity and of its position.
\<close>

theorem coincident_boids_NaN:
  "mBoids (fst (update
      (addBoid (Fin 100) (Fin 200) (Fin 5) (Color 0 255 0 255)
        (addBoid (Fin 100) (Fin 200) (Fin 3) (Color 255 0 0 255)
           \<lparr>mBoids = [], mDest = dest\<rparr>)) rng)) ! 0 =
     \<lparr>mPos = Vector2f NaN NaN, mVel = Vector2f NaN NaN, mRadius = Fin 3,
       mColor = Color 255 0 0 255\<rparr>"
  by (simp add: step_defs vec_defs float_consts)

text \<open>
  C3, at one boid added at \<open>(500, 300)\<close> when the destination is \<open>(500, 300)\<close>,
  whatever the draws are: the normalized direction of line 116 is not the zero vector
  but NaN in both components, and the boid ends with NaN in its velocity and its
  position.
\<close>

theorem boid_at_destination_NaN:
  "normalized (Vector2f (Fin 500) (Fin 300) - Vector2f (Fin 500) (Fin 300)) = Vector2f NaN NaN \<and>
   update (addBoid (Fin 500) (Fin 300) (Fin 4) (Color 255 0 0 255)
             \<lparr>mBoids = [], mDest = Vector2f (Fin 500) (Fin 300)\<rparr>) rng =
     (\<lparr>mBoids = [\<lparr>mPos = Vector2f NaN NaN, mVel = Vector2f NaN NaN, mRadius = Fin 4,
                    mColor = Color 255 0 0 255\<rparr>],
       mDest = Vector2f (Fin 500) (Fin 300)\<rparr>, stl (stl rng))"
  by (simp add: step_defs vec_defs float_consts)

section \<open>The speed limit\<close>


















end
